theory Spec2Isabelle
  imports Complex_Main
begin

section \<open>Request bodies and the zod schemas\<close>

text \<open>
  A request body is the JavaScript value that the JSON body parser hands to the route.
  An object is an association list read with \<open>map_of\<close>; a key that is absent reads as
  \<open>None\<close>, which is JavaScript's \<^verbatim>\<open>undefined\<close>. A number is kept by its
  rational value (\<^verbatim>\<open>1.5\<close> is \<open>3 / 2\<close>); a string is the list of its code units, so
  \<open>length\<close> is the \<^verbatim>\<open>.length\<close> that zod's \<^verbatim>\<open>min\<close> and \<^verbatim>\<open>max\<close> compare.
\<close>

datatype json =
    JNull
  | JBool bool
  | JNum rat
  | JStr string
  | JArr "json list"
  | JObj "(string \<times> json) list"

text \<open>
  The schema combinators the two route files use. \<^verbatim>\<open>z.string().min(3).max(200)\<close> is
  \<open>ZString [StrMin 3, StrMax 200]\<close>, \<^verbatim>\<open>z.number().min(1)\<close> is \<open>ZNumber [NumMin 1]\<close>, and
  \<^verbatim>\<open>s.optional()\<close> is \<open>ZOptional s\<close>.
\<close>

datatype string_check =
    StrMin nat
  | StrMax nat
  | Uuid
  | Datetime
  | Regex "string \<Rightarrow> bool"

datatype number_check = NumMin rat

datatype schema =
    ZString "string_check list"
  | ZNumber "number_check list"
  | ZBoolean
  | ZEnum "string list"
  | ZArray schema
  | ZOptional schema
  | ZObject "(string \<times> schema) list"

text \<open>
  The patterns behind \<^verbatim>\<open>.uuid()\<close> and \<^verbatim>\<open>.datetime()\<close> belong to the zod package,
  which is not part of the repository. They are parameters of the semantics: every
  theorem below holds for whatever strings the installed zod takes for a UUID or a
  datetime.
\<close>

record zod_formats =
  uuid :: "string \<Rightarrow> bool"
  datetime :: "string \<Rightarrow> bool"

fun stringCheck :: "zod_formats \<Rightarrow> string \<Rightarrow> string_check \<Rightarrow> bool" where
  "stringCheck F s (StrMin n) = (n \<le> length s)"
| "stringCheck F s (StrMax n) = (length s \<le> n)"
| "stringCheck F s Uuid = uuid F s"
| "stringCheck F s Datetime = datetime F s"
| "stringCheck F s (Regex p) = p s"

fun numberCheck :: "rat \<Rightarrow> number_check \<Rightarrow> bool" where
  "numberCheck x (NumMin m) = (m \<le> x)"

text \<open>
  \<open>accepts F s v\<close>: \<^verbatim>\<open>s.safeParse(v).success\<close>. Only an optional schema takes
  \<^verbatim>\<open>undefined\<close>; \<^verbatim>\<open>null\<close> and a value of another type are refused; an object schema
  checks each of its declared keys and ignores the others.
\<close>

fun accepts :: "zod_formats \<Rightarrow> schema \<Rightarrow> json option \<Rightarrow> bool"
  and acceptsItems :: "zod_formats \<Rightarrow> schema \<Rightarrow> json list \<Rightarrow> bool"
  and acceptsShape :: "zod_formats \<Rightarrow> (string \<times> schema) list \<Rightarrow> (string \<times> json) list \<Rightarrow> bool"
where
  "accepts F (ZOptional s) None = True"
| "accepts F (ZOptional s) (Some v) = accepts F s (Some v)"
| "accepts F (ZString cs) (Some (JStr x)) = list_all (stringCheck F x) cs"
| "accepts F (ZNumber cs) (Some (JNum x)) = list_all (numberCheck x) cs"
| "accepts F ZBoolean (Some (JBool b)) = True"
| "accepts F (ZEnum vs) (Some (JStr x)) = (x \<in> set vs)"
| "accepts F (ZArray s) (Some (JArr xs)) = acceptsItems F s xs"
| "accepts F (ZObject fs) (Some (JObj kvs)) = acceptsShape F fs kvs"
| "accepts F s v = False"
| "acceptsItems F s [] = True"
| "acceptsItems F s (x # xs) = (accepts F s (Some x) \<and> acceptsItems F s xs)"
| "acceptsShape F [] kvs = True"
| "acceptsShape F ((k, s) # fs) kvs = (accepts F s (map_of kvs k) \<and> acceptsShape F fs kvs)"

subsection \<open>protocolRoutes.ts: the schemas\<close>

definition createProtocolSchema :: schema where
  "createProtocolSchema = ZObject
     [(''name'', ZString [StrMin 3, StrMax 200]),
      (''description'', ZOptional (ZString [])),
      (''frequency'', ZEnum [''DAILY'', ''WEEKLY'', ''MONTHLY'', ''SHIFT_START'', ''SHIFT_END'']),
      (''targetCount'', ZNumber [NumMin 1]),
      (''zoneIds'', ZOptional (ZArray (ZString [])))]"

definition updateProtocolSchema :: schema where
  "updateProtocolSchema = ZObject
     [(''name'', ZOptional (ZString [StrMin 3, StrMax 200])),
      (''description'', ZOptional (ZString [])),
      (''frequency'',
         ZOptional (ZEnum [''DAILY'', ''WEEKLY'', ''MONTHLY'', ''SHIFT_START'', ''SHIFT_END''])),
      (''targetCount'', ZOptional (ZNumber [NumMin 1])),
      (''isActive'', ZOptional ZBoolean),
      (''zoneIds'', ZOptional (ZArray (ZString [])))]"

definition protocolParamsSchema :: schema where
  "protocolParamsSchema = ZObject [(''id'', ZString [Uuid])]"

definition createComplianceLogSchema :: schema where
  "createComplianceLogSchema = ZObject
     [(''completionDate'', ZOptional (ZString [Datetime])),
      (''note'', ZOptional (ZString [StrMax 500]))]"

subsection \<open>hazardZoneRoutes.ts: the schemas\<close>

definition isHexDigit :: "char \<Rightarrow> bool" where
  "isHexDigit c = (c \<in> set ''0123456789ABCDEFabcdef'')"

text \<open>The regular expression \<^verbatim>\<open>/^#[0-9A-Fa-f]{6}$/\<close>.\<close>

definition hexColor :: "string \<Rightarrow> bool" where
  "hexColor s = (case s of [] \<Rightarrow> False | c # cs \<Rightarrow> c = CHR ''#'' \<and> length cs = 6 \<and> list_all isHexDigit cs)"

definition createHazardZoneSchema :: schema where
  "createHazardZoneSchema = ZObject
     [(''name'', ZString [StrMin 3, StrMax 50]),
      (''color'', ZOptional (ZString [Regex hexColor]))]"

definition updateHazardZoneSchema :: schema where
  "updateHazardZoneSchema = ZObject
     [(''name'', ZOptional (ZString [StrMin 3, StrMax 50])),
      (''color'', ZOptional (ZString [Regex hexColor]))]"

definition hazardZoneParamsSchema :: schema where
  "hazardZoneParamsSchema = ZObject [(''id'', ZString [Uuid])]"

section \<open>The routers\<close>

text \<open>
  An express router is the list of its layers in the order the module registers them:
  \<^verbatim>\<open>router.use(m)\<close> and \<^verbatim>\<open>router.get(path, h1, ..., hn)\<close> each append one. A request
  walks the list from the front. The path is the list of its segments under the router's
  mount point: \<^verbatim>\<open>/\<close> is \<open>[]\<close> and \<^verbatim>\<open>/:id/compliance-logs\<close> matches
  \<open>[i, ''compliance-logs'']\<close> for a non-empty \<open>i\<close>.
\<close>

datatype http_method = GET | POST | PATCH | PUT | DELETE

record request =
  reqMethod :: http_method
  reqPath :: "string list"
  reqAuthorization :: "string option"
  reqBody :: "json option"

datatype segment = Lit string | Param string

type_synonym params = "(string \<times> string) list"

fun matchPath :: "segment list \<Rightarrow> string list \<Rightarrow> params option" where
  "matchPath [] [] = Some []"
| "matchPath (Lit l # ps) (x # xs) = (if x = l then matchPath ps xs else None)"
| "matchPath (Param n # ps) (x # xs) =
     (if x = [] then None else map_option ((#) (n, x)) (matchPath ps xs))"
| "matchPath ps xs = None"

text \<open>
  The controllers are imported from \<^verbatim>\<open>controllers/protocolController.ts\<close> and
  \<^verbatim>\<open>controllers/hazardZoneController.ts\<close>, which are not among the sources: a route
  names its controller, and a request that gets there is \<open>Reached\<close> it.
\<close>

datatype controller =
    GetProtocols | CreateProtocol | GetProtocolById | UpdateProtocol | DeleteProtocol
  | CreateComplianceLog | GetComplianceLogs
  | GetHazardZones | CreateHazardZone | GetHazardZoneById | UpdateHazardZone | DeleteHazardZone

datatype handler =
    ValidateBody schema
  | ValidateParams schema
  | Controller controller

datatype middleware = AuthenticateToken

datatype layer =
    Use middleware
  | Route http_method "segment list" "handler list"

datatype outcome =
    Unauthorized
  | BadRequest
  | NoRoute
  | Reached controller params

definition paramsObject :: "params \<Rightarrow> json" where
  "paramsObject ps = JObj (map (\<lambda>(k, v). (k, JStr v)) ps)"

text \<open>
  Modelled from the spec: \<^verbatim>\<open>middleware/validation.ts\<close> is not among the sources.
  Section 6 makes the HTTP layer responsible for the request schema checks before the
  core is called, and the OpenAPI comments answer invalid input with status 400. So
  \<open>validateBody s\<close> and \<open>validateParams s\<close> pass the request on exactly when \<open>s\<close>
  accepts \<^verbatim>\<open>req.body\<close>, respectively \<^verbatim>\<open>req.params\<close>, and end it with \<open>BadRequest\<close>
  otherwise.
\<close>

definition validateBody :: "zod_formats \<Rightarrow> schema \<Rightarrow> request \<Rightarrow> bool" where
  "validateBody F s req = accepts F s (reqBody req)"

text \<open>
  Modelled from the spec: \<open>validateParams\<close>, as described above; \<^verbatim>\<open>req.params\<close> is
  the object of the path's named segments.
\<close>

definition validateParams :: "zod_formats \<Rightarrow> schema \<Rightarrow> params \<Rightarrow> bool" where
  "validateParams F s ps = accepts F s (Some (paramsObject ps))"

text \<open>
  The handlers of one route, left to right. \<open>None\<close>: the last handler called
  \<^verbatim>\<open>next()\<close>, and the router goes on with the layers after this route.
\<close>

fun runHandlers :: "zod_formats \<Rightarrow> handler list \<Rightarrow> params \<Rightarrow> request \<Rightarrow> outcome option" where
  "runHandlers F [] ps req = None"
| "runHandlers F (ValidateParams s # hs) ps req =
     (if validateParams F s ps then runHandlers F hs ps req else Some BadRequest)"
| "runHandlers F (ValidateBody s # hs) ps req =
     (if validateBody F s req then runHandlers F hs ps req else Some BadRequest)"
| "runHandlers F (Controller c # hs) ps req = Some (Reached c ps)"

text \<open>
  \<^verbatim>\<open>middleware/auth.ts\<close> is not among the sources either. \<open>auth req\<close> says whether
  \<^verbatim>\<open>authenticateToken\<close> calls \<^verbatim>\<open>next()\<close> on \<open>req\<close>; when it does not, it has ended
  the request itself (\<open>Unauthorized\<close>).
\<close>

fun dispatch :: "zod_formats \<Rightarrow> (request \<Rightarrow> bool) \<Rightarrow> layer list \<Rightarrow> request \<Rightarrow> outcome" where
  "dispatch F auth [] req = NoRoute"
| "dispatch F auth (Use AuthenticateToken # ls) req =
     (if auth req then dispatch F auth ls req else Unauthorized)"
| "dispatch F auth (Route m pat hs # ls) req =
     (if reqMethod req = m then
        (case matchPath pat (reqPath req) of
           None \<Rightarrow> dispatch F auth ls req
         | Some ps \<Rightarrow>
             (case runHandlers F hs ps req of
                None \<Rightarrow> dispatch F auth ls req
              | Some out \<Rightarrow> out))
      else dispatch F auth ls req)"

subsection \<open>protocolRoutes.ts: the router\<close>

definition protocolRouter :: "layer list" where
  "protocolRouter =
     [Use AuthenticateToken,
      Route GET [] [Controller GetProtocols],
      Route POST [] [ValidateBody createProtocolSchema, Controller CreateProtocol],
      Route GET [Param ''id'']
        [ValidateParams protocolParamsSchema, Controller GetProtocolById],
      Route PATCH [Param ''id'']
        [ValidateParams protocolParamsSchema, ValidateBody updateProtocolSchema,
         Controller UpdateProtocol],
      Route DELETE [Param ''id'']
        [ValidateParams protocolParamsSchema, Controller DeleteProtocol],
      Route POST [Param ''id'', Lit ''compliance-logs'']
        [ValidateParams protocolParamsSchema, ValidateBody createComplianceLogSchema,
         Controller CreateComplianceLog],
      Route GET [Param ''id'', Lit ''compliance-logs'']
        [ValidateParams protocolParamsSchema, Controller GetComplianceLogs]]"

subsection \<open>hazardZoneRoutes.ts: the router\<close>

definition hazardZoneRouter :: "layer list" where
  "hazardZoneRouter =
     [Use AuthenticateToken,
      Route GET [] [Controller GetHazardZones],
      Route POST [] [ValidateBody createHazardZoneSchema, Controller CreateHazardZone],
      Route GET [Param ''id'']
        [ValidateParams hazardZoneParamsSchema, Controller GetHazardZoneById],
      Route PATCH [Param ''id'']
        [ValidateParams hazardZoneParamsSchema, ValidateBody updateHazardZoneSchema,
         Controller UpdateHazardZone],
      Route DELETE [Param ''id'']
        [ValidateParams hazardZoneParamsSchema, Controller DeleteHazardZone]]"

subsection \<open>A zod to run examples with\<close>

text \<open>
  One instance of the format parameters, for evaluating concrete requests: a UUID is
  8-4-4-4-12 hexadecimal digits, a datetime is \<^verbatim>\<open>YYYY-MM-DDTHH:MM:SSZ\<close> with an optional
  fraction of a second.
\<close>

definition isDigit :: "char \<Rightarrow> bool" where
  "isDigit c = (c \<in> set ''0123456789'')"

fun matchGroups :: "(char \<Rightarrow> bool) \<Rightarrow> nat list \<Rightarrow> char \<Rightarrow> string \<Rightarrow> bool" where
  "matchGroups p [] sep s = False"
| "matchGroups p [n] sep s = (length s = n \<and> list_all p s)"
| "matchGroups p (n # ns) sep s =
     (list_all p (take n s) \<and> length (take n s) = n \<and>
      (case drop n s of [] \<Rightarrow> False | c # cs \<Rightarrow> c = sep \<and> matchGroups p ns sep cs))"

definition uuidShape :: "string \<Rightarrow> bool" where
  "uuidShape s = matchGroups isHexDigit [8, 4, 4, 4, 12] CHR ''-'' s"

definition datetimeShape :: "string \<Rightarrow> bool" where
  "datetimeShape s =
     (matchGroups isDigit [4, 2, 2] CHR ''-'' (take 10 s) \<and>
      (case drop 10 s of
         [] \<Rightarrow> False
       | t # r \<Rightarrow>
           t = CHR ''T'' \<and> matchGroups isDigit [2, 2, 2] CHR '':'' (take 8 r) \<and>
           (case drop 8 r of
              [] \<Rightarrow> False
            | d # f \<Rightarrow>
                (d = CHR ''Z'' \<and> f = []) \<or>
                (d = CHR ''.'' \<and> f \<noteq> [] \<and> last f = CHR ''Z'' \<and> butlast f \<noteq> [] \<and>
                 list_all isDigit (butlast f)))))"

definition zodShapes :: zod_formats where
  "zodShapes = \<lparr>uuid = uuidShape, datetime = datetimeShape\<rparr>"

section \<open>The log validator\<close>

type_synonym instant = int

record validator_config =
  clockSkewTolerance :: int
  maxBackfill :: "int option"

definition defaultValidatorConfig :: validator_config where
  "defaultValidatorConfig = \<lparr>clockSkewTolerance = 0, maxBackfill = None\<rparr>"

datatype rejection = FUTURE_DATE | TOO_OLD

datatype validation = Ok | Rejected rejection

text \<open>
  Modelled from the spec: the check of a completion date against the clock is made
  behind the route, in \<^verbatim>\<open>createComplianceLog\<close> of
  \<^verbatim>\<open>controllers/protocolController.ts\<close>, which is not among the sources (the route's
  schema only asks for a datetime string; the OpenAPI comment of the route answers a
  future date with status 400). Section 4.2: \<^verbatim>\<open>validate(completionDate, now)\<close> is
  \<^verbatim>\<open>Rejected(FUTURE_DATE)\<close> when the date is later than now by more than the configured
  clock-skew tolerance (default 0), \<^verbatim>\<open>Rejected(TOO_OLD)\<close> only if a maximum backfill
  window is configured (default: none), and \<^verbatim>\<open>Ok\<close> otherwise.
\<close>

definition validate :: "validator_config \<Rightarrow> instant \<Rightarrow> instant \<Rightarrow> validation" where
  "validate cfg date now =
     (if now + clockSkewTolerance cfg < date then Rejected FUTURE_DATE
      else case maxBackfill cfg of
             None \<Rightarrow> Ok
           | Some w \<Rightarrow> if date < now - w then Rejected TOO_OLD else Ok)"

section \<open>Example requests\<close>

definition exampleId :: string where
  "exampleId = ''123e4567-e89b-12d3-a456-426614174000''"

definition bearer :: "request \<Rightarrow> bool" where
  "bearer req = (reqAuthorization req \<noteq> None)"

definition fractionalTargetCount :: request where
  "fractionalTargetCount =
     \<lparr>reqMethod = POST, reqPath = [], reqAuthorization = Some ''Bearer t'',
      reqBody = Some (JObj
        [(''name'', JStr ''Morning PPE Inspection''),
         (''frequency'', JStr ''DAILY''),
         (''targetCount'', JNum (3 / 2))])\<rparr>"

definition nonUuidZoneIds :: request where
  "nonUuidZoneIds =
     \<lparr>reqMethod = POST, reqPath = [], reqAuthorization = Some ''Bearer t'',
      reqBody = Some (JObj
        [(''name'', JStr ''Morning PPE Inspection''),
         (''frequency'', JStr ''DAILY''),
         (''targetCount'', JNum 1),
         (''zoneIds'', JArr [JStr ''not-a-uuid''])])\<rparr>"

definition shortName :: request where
  "shortName =
     \<lparr>reqMethod = POST, reqPath = [], reqAuthorization = Some ''Bearer t'',
      reqBody = Some (JObj
        [(''name'', JStr ''ab''),
         (''frequency'', JStr ''DAILY''),
         (''targetCount'', JNum 1)])\<rparr>"

definition logWithoutDate :: request where
  "logWithoutDate =
     \<lparr>reqMethod = POST, reqPath = [exampleId, ''compliance-logs''],
      reqAuthorization = Some ''Bearer t'',
      reqBody = Some (JObj [(''note'', JStr ''All PPE equipment in good condition'')])\<rparr>"

definition anonymousList :: request where
  "anonymousList =
     \<lparr>reqMethod = GET, reqPath = [], reqAuthorization = None, reqBody = None\<rparr>"

section \<open>What a schema accepts\<close>

lemma accepts_string:
  "accepts F (ZString cs) v = (\<exists>s. v = Some (JStr s) \<and> list_all (stringCheck F s) cs)"
proof (cases v)
  case None
  then show ?thesis by simp
next
  case (Some x)
  then show ?thesis by (cases x) simp_all
qed

lemma accepts_optional_string:
  "accepts F (ZOptional (ZString cs)) v =
     (case v of None \<Rightarrow> True | Some x \<Rightarrow> (\<exists>s. x = JStr s \<and> list_all (stringCheck F s) cs))"
proof (cases v)
  case None
  then show ?thesis by simp
next
  case (Some x)
  then show ?thesis by (cases x) simp_all
qed

lemma accepts_object:
  "accepts F (ZObject fs) b = (\<exists>kvs. b = Some (JObj kvs) \<and> acceptsShape F fs kvs)"
proof (cases b)
  case None
  then show ?thesis by simp
next
  case (Some x)
  then show ?thesis by (cases x) simp_all
qed

lemma accepts_createProtocolSchema_name:
  assumes "accepts F createProtocolSchema b"
  shows "\<exists>kvs s. b = Some (JObj kvs) \<and> map_of kvs ''name'' = Some (JStr s) \<and>
           3 \<le> length s \<and> length s \<le> 200"
  using assms by (auto simp: createProtocolSchema_def accepts_object accepts_string)

lemma accepts_createComplianceLogSchema:
  "accepts F createComplianceLogSchema (Some (JObj kvs)) =
     ((case map_of kvs ''completionDate'' of
         None \<Rightarrow> True
       | Some v \<Rightarrow> (\<exists>s. v = JStr s \<and> datetime F s)) \<and>
      (case map_of kvs ''note'' of
         None \<Rightarrow> True
       | Some v \<Rightarrow> (\<exists>s. v = JStr s \<and> length s \<le> 500)))"
  by (simp add: createComplianceLogSchema_def accepts_optional_string cong: option.case_cong)

lemma uuidShape_exampleId: "uuidShape exampleId"
  by (simp add: uuidShape_def exampleId_def isHexDigit_def)

lemma exampleId_not_empty: "exampleId \<noteq> []"
  by (simp add: exampleId_def)

section \<open>Where a request ends\<close>

text \<open>The outcome of a route of \<open>protocolRouter\<close>, case by case.\<close>

lemma dispatch_createProtocol:
  assumes "reqMethod req = POST" and "reqPath req = []"
  shows "dispatch F auth protocolRouter req =
    (if \<not> auth req then Unauthorized
     else if accepts F createProtocolSchema (reqBody req) then Reached CreateProtocol []
     else BadRequest)"
  using assms by (simp add: protocolRouter_def validateBody_def)

lemma dispatch_updateProtocol:
  assumes "reqMethod req = PATCH" and "reqPath req = [i]"
  shows "dispatch F auth protocolRouter req =
    (if \<not> auth req then Unauthorized
     else if i = [] then NoRoute
     else if \<not> uuid F i then BadRequest
     else if accepts F updateProtocolSchema (reqBody req)
       then Reached UpdateProtocol [(''id'', i)]
     else BadRequest)"
  using assms
  by (simp add: protocolRouter_def validateBody_def validateParams_def paramsObject_def
      protocolParamsSchema_def)

lemma dispatch_createComplianceLog:
  assumes "reqMethod req = POST" and "reqPath req = [i, ''compliance-logs'']"
  shows "dispatch F auth protocolRouter req =
    (if \<not> auth req then Unauthorized
     else if i = [] then NoRoute
     else if \<not> uuid F i then BadRequest
     else if accepts F createComplianceLogSchema (reqBody req)
       then Reached CreateComplianceLog [(''id'', i)]
     else BadRequest)"
  using assms
  by (simp add: protocolRouter_def validateBody_def validateParams_def paramsObject_def
      protocolParamsSchema_def)

section \<open>Request validation\<close>

text \<open>
  Claim C1, at the input where the code leaves it. The claim has every accepted create
  or update body carry an integer \<open>targetCount\<close> and has \<^verbatim>\<open>1.5\<close> refused, as the
  OpenAPI comments of both routes document (\<^verbatim>\<open>type: integer, minimum: 1\<close>). The
  schemas say \<^verbatim>\<open>z.number().min(1)\<close> with no \<^verbatim>\<open>.int()\<close>: the create request with
  \<^verbatim>\<open>targetCount: 1.5\<close> reaches the controller, and the update schema accepts the same
  number, which is not an integer.
\<close>

theorem fractional_targetCount_reaches_createProtocol:
  "dispatch F bearer protocolRouter fractionalTargetCount = Reached CreateProtocol [] \<and>
   accepts F updateProtocolSchema (Some (JObj [(''targetCount'', JNum (3 / 2))])) \<and>
   (3 / 2 :: rat) \<notin> \<int>"
proof -
  have m: "reqMethod fractionalTargetCount = POST" and p: "reqPath fractionalTargetCount = []"
    by (simp_all add: fractionalTargetCount_def)
  have "dispatch F bearer protocolRouter fractionalTargetCount = Reached CreateProtocol []"
    by (simp add: dispatch_createProtocol [OF m p])
      (simp add: fractionalTargetCount_def bearer_def createProtocolSchema_def)
  moreover have "accepts F updateProtocolSchema (Some (JObj [(''targetCount'', JNum (3 / 2))]))"
    by (simp add: updateProtocolSchema_def)
  moreover have "(3 / 2 :: rat) \<notin> \<int>"
  proof
    assume "(3 / 2 :: rat) \<in> \<int>"
    then obtain k :: int where "(3 / 2 :: rat) = of_int k"
      by (auto elim: Ints_cases)
    then have "(3 :: rat) = of_int (2 * k)" by simp
    then have "(3 :: int) = 2 * k" by (metis of_int_eq_iff of_int_numeral)
    then show False by presburger
  qed
  ultimately show ?thesis by blast
qed

text \<open>
  Claim C7, at the input where the code leaves it. The claim has request validation
  refuse a path id and a \<open>zoneIds\<close> entry that is not a UUID, as the OpenAPI comments
  document (\<^verbatim>\<open>items: {type: string, format: uuid}\<close>). The path id is checked:
  \<open>protocolParamsSchema\<close> accepts \<open>''not-a-uuid''\<close> exactly when zod's UUID pattern
  does. The entries of \<open>zoneIds\<close> are \<^verbatim>\<open>z.string()\<close> with no \<^verbatim>\<open>.uuid()\<close>: the create
  request with \<^verbatim>\<open>zoneIds: ["not-a-uuid"]\<close> reaches the controller whatever the UUID
  pattern is, and the update schema accepts the same array.
\<close>

theorem zoneIds_not_checked_for_uuid:
  "dispatch F bearer protocolRouter nonUuidZoneIds = Reached CreateProtocol [] \<and>
   accepts F updateProtocolSchema (Some (JObj [(''zoneIds'', JArr [JStr ''not-a-uuid''])])) \<and>
   accepts F protocolParamsSchema (Some (paramsObject [(''id'', ''not-a-uuid'')]))
     = uuid F ''not-a-uuid'' \<and>
   \<not> uuidShape ''not-a-uuid''"
proof -
  have m: "reqMethod nonUuidZoneIds = POST" and p: "reqPath nonUuidZoneIds = []"
    by (simp_all add: nonUuidZoneIds_def)
  have "dispatch F bearer protocolRouter nonUuidZoneIds = Reached CreateProtocol []"
    by (simp add: dispatch_createProtocol [OF m p])
      (simp add: nonUuidZoneIds_def bearer_def createProtocolSchema_def)
  moreover have
    "accepts F updateProtocolSchema (Some (JObj [(''zoneIds'', JArr [JStr ''not-a-uuid''])]))"
    by (simp add: updateProtocolSchema_def)
  moreover have "accepts F protocolParamsSchema (Some (paramsObject [(''id'', ''not-a-uuid'')]))
     = uuid F ''not-a-uuid''"
    by (simp add: protocolParamsSchema_def paramsObject_def)
  moreover have "\<not> uuidShape ''not-a-uuid''"
    by (simp add: uuidShape_def)
  ultimately show ?thesis by blast
qed

text \<open>
  Claim C8. A body that \<open>createProtocolSchema\<close> accepts is an object whose \<open>name\<close> is a
  string of 3 to 200 code units; and a request to \<^verbatim>\<open>POST /\<close> whose body is not of that
  kind ends in \<open>validateBody\<close> (or, unauthenticated, before it): the
  \<^verbatim>\<open>createProtocol\<close> controller is not reached.
\<close>

theorem createProtocol_name_length:
  assumes "reqMethod req = POST" and "reqPath req = []"
  shows "(accepts F createProtocolSchema (reqBody req) \<longrightarrow>
            (\<exists>kvs s. reqBody req = Some (JObj kvs) \<and> map_of kvs ''name'' = Some (JStr s) \<and>
               3 \<le> length s \<and> length s \<le> 200)) \<and>
         (\<not> (\<exists>kvs s. reqBody req = Some (JObj kvs) \<and> map_of kvs ''name'' = Some (JStr s) \<and>
               3 \<le> length s \<and> length s \<le> 200) \<longrightarrow>
            dispatch F auth protocolRouter req = (if auth req then BadRequest else Unauthorized))"
proof (intro conjI impI)
  assume "accepts F createProtocolSchema (reqBody req)"
  then show "\<exists>kvs s. reqBody req = Some (JObj kvs) \<and> map_of kvs ''name'' = Some (JStr s) \<and>
               3 \<le> length s \<and> length s \<le> 200"
    by (rule accepts_createProtocolSchema_name)
next
  assume "\<not> (\<exists>kvs s. reqBody req = Some (JObj kvs) \<and> map_of kvs ''name'' = Some (JStr s) \<and>
               3 \<le> length s \<and> length s \<le> 200)"
  then have "\<not> accepts F createProtocolSchema (reqBody req)"
    using accepts_createProtocolSchema_name by blast
  then show "dispatch F auth protocolRouter req = (if auth req then BadRequest else Unauthorized)"
    by (simp add: dispatch_createProtocol [OF assms])
qed

theorem createProtocol_name_length_witness:
  "reqMethod shortName = POST \<and> reqPath shortName = [] \<and>
   dispatch zodShapes bearer protocolRouter shortName = BadRequest"
proof -
  have m: "reqMethod shortName = POST" and p: "reqPath shortName = []"
    by (simp_all add: shortName_def)
  have short: "\<not> (\<exists>kvs s. reqBody shortName = Some (JObj kvs) \<and>
      map_of kvs ''name'' = Some (JStr s) \<and> 3 \<le> length s \<and> length s \<le> 200)"
    by (auto simp: shortName_def)
  have "bearer shortName"
    by (simp add: bearer_def shortName_def)
  with createProtocol_name_length [OF m p, where F = zodShapes and auth = bearer] short
  have "dispatch zodShapes bearer protocolRouter shortName = BadRequest"
    by simp
  with m p show ?thesis by simp
qed

text \<open>
  Claim C9. At \<^verbatim>\<open>POST /:id/compliance-logs\<close>, for an authenticated request with a UUID
  in the path and an object as body, \<open>validateBody\<close> lets the request through to
  \<^verbatim>\<open>createComplianceLog\<close> exactly when \<open>completionDate\<close> is absent or a string that zod
  takes for a datetime, and \<open>note\<close> is absent or a string of at most 500 code units. That
  an absent date defaults to the time of ingestion is what the route's OpenAPI comment
  documents; the schema only makes the field optional.
\<close>

theorem createComplianceLog_body:
  assumes "reqMethod req = POST" and "reqPath req = [i, ''compliance-logs'']"
    and "auth req" and "i \<noteq> []" and "uuid F i"
    and "reqBody req = Some (JObj kvs)"
  shows "dispatch F auth protocolRouter req =
    (if (case map_of kvs ''completionDate'' of
           None \<Rightarrow> True
         | Some v \<Rightarrow> (\<exists>s. v = JStr s \<and> datetime F s)) \<and>
        (case map_of kvs ''note'' of
           None \<Rightarrow> True
         | Some v \<Rightarrow> (\<exists>s. v = JStr s \<and> length s \<le> 500))
     then Reached CreateComplianceLog [(''id'', i)]
     else BadRequest)"
  using assms(3-6)
  by (simp add: dispatch_createComplianceLog [OF assms(1,2)] accepts_createComplianceLogSchema)

theorem createComplianceLog_body_witness:
  "map_of [(''note'', JStr ''All PPE equipment in good condition'')] ''completionDate'' = None \<and>
   dispatch zodShapes bearer protocolRouter logWithoutDate
     = Reached CreateComplianceLog [(''id'', exampleId)]"
proof -
  have m: "reqMethod logWithoutDate = POST"
    and p: "reqPath logWithoutDate = [exampleId, ''compliance-logs'']"
    and b: "reqBody logWithoutDate
              = Some (JObj [(''note'', JStr ''All PPE equipment in good condition'')])"
    and a: "bearer logWithoutDate"
    by (simp_all add: logWithoutDate_def bearer_def)
  have u: "uuid zodShapes exampleId"
    using uuidShape_exampleId by (simp add: zodShapes_def)
  show ?thesis
    using createComplianceLog_body
      [where req = logWithoutDate and auth = bearer and F = zodShapes,
        OF m p a exampleId_not_empty u b]
    by simp
qed

text \<open>
  Claim C10. Both routers register \<^verbatim>\<open>authenticateToken\<close> as their first layer, and a
  request on which it does not call \<^verbatim>\<open>next()\<close> ends there on either router, whatever
  its method, path and body: no validation middleware and no controller runs.
\<close>

theorem routes_require_authentication:
  assumes "\<not> auth req"
  shows "dispatch F auth protocolRouter req = Unauthorized \<and>
         dispatch F auth hazardZoneRouter req = Unauthorized \<and>
         hd protocolRouter = Use AuthenticateToken \<and>
         hd hazardZoneRouter = Use AuthenticateToken"
  using assms by (simp add: protocolRouter_def hazardZoneRouter_def)

theorem routes_require_authentication_witness:
  "\<not> bearer anonymousList \<and>
   dispatch zodShapes bearer protocolRouter anonymousList = Unauthorized \<and>
   dispatch zodShapes bearer hazardZoneRouter anonymousList = Unauthorized"
proof -
  have "\<not> bearer anonymousList"
    by (simp add: bearer_def anonymousList_def)
  then show ?thesis
    using routes_require_authentication [of bearer anonymousList zodShapes] by simp
qed

section \<open>The log validator and the clock\<close>

text \<open>
  Claim C3. \<open>validate\<close> answers \<open>Rejected FUTURE_DATE\<close> exactly when the completion
  date is later than now plus the configured clock-skew tolerance, whatever backfill
  window is configured; with the default configuration (tolerance 0, no backfill
  window) a completion date equal to now is accepted.
\<close>

theorem validate_future_date:
  "(validate cfg date now = Rejected FUTURE_DATE \<longleftrightarrow> now + clockSkewTolerance cfg < date) \<and>
   validate defaultValidatorConfig now now = Ok"
  by (simp add: validate_def defaultValidatorConfig_def split: option.splits)

end
